theory Spec2Isabelle
  imports Main
begin

section \<open>The element tree of \<open>xml.etree.ElementTree\<close>\<close>

text \<open>
  \<open>get_tracks\<close> works on the tree that \<open>ET.fromstring\<close> returns. An
  \<open>Element\<close> has a tag, a dictionary of attributes, the text before its first
  child (\<open>None\<close> when there is none) and its children in document order.
  The attribute dictionary is kept as the list of its items; the parser never
  produces two items with the same key.
\<close>

datatype element =
  Element (tag: string) (attrib: "(string \<times> string) list")
          (etext: "string option") (children: "element list")

text \<open>Python's truth value of an \<open>Optional[str]\<close>: \<open>None\<close> and \<open>""\<close> are false.\<close>

definition truthy :: "string option \<Rightarrow> bool" where
  "truthy v = (case v of None \<Rightarrow> False | Some s \<Rightarrow> s \<noteq> [])"

definition py_not :: "string option \<Rightarrow> bool" where
  "py_not v = (\<not> truthy v)"

text \<open>\<open>Element.get(key)\<close>: a plain dictionary lookup, with no namespace handling.\<close>

definition get :: "element \<Rightarrow> string \<Rightarrow> string option" where
  "get e key = map_of (attrib e) key"

text \<open>\<open>Element.iter()\<close>: the element itself, then its subtree, in document order.\<close>

fun iter :: "element \<Rightarrow> element list" where
  "iter (Element t a x cs) = Element t a x cs # concat (map iter cs)"

text \<open>
  The path \<open>.//tag\<close> selects the elements of \<open>root.iter(tag)\<close> other than
  \<open>root\<close> itself: the proper descendants, in document order.
\<close>

definition descendants :: "element \<Rightarrow> element list" where
  "descendants root = concat (map iter (children root))"

text \<open>
  The calls the code makes on the tree are recorded in a log, oldest first, so that
  a statement can say which searches were performed.
\<close>

datatype call =
  Findall string "(string \<times> string) option"
| Get string
| Find string

text \<open>
  \<open>root.findall(".//t[@k='v']", namespaces)\<close> and \<open>root.findall(".//t", namespaces)\<close>,
  with \<open>t\<close> already expanded to \<open>{uri}local\<close>: the descendants with that tag, and, with
  a predicate, those whose \<open>get(k)\<close> equals \<open>v\<close>.
\<close>

definition findall ::
  "element \<Rightarrow> string \<Rightarrow> (string \<times> string) option \<Rightarrow> call list \<Rightarrow> element list \<times> call list" where
  "findall root t pred log =
     (filter (\<lambda>e. case pred of None \<Rightarrow> True | Some (k, v) \<Rightarrow> get e k = Some v)
        (filter (\<lambda>e. tag e = t) (descendants root)),
      log @ [Findall t pred])"

text \<open>\<open>cp.find(t, namespaces)\<close>: the first child of \<open>cp\<close> with tag \<open>t\<close>, or \<open>None\<close>.\<close>

definition find_child :: "element \<Rightarrow> string \<Rightarrow> element option" where
  "find_child cp t = List.find (\<lambda>c. tag c = t) (children cp)"

section \<open>Constants of \<open>get_tracks\<close>\<close>

text \<open>
  With the prefix map \<open>namespaces\<close> of the source, ElementPath rewrites
  \<open>dash:ContentProtection\<close> and \<open>cenc:pssh\<close> in a path to the form \<open>{uri}local\<close>.
\<close>

definition clark :: "string \<Rightarrow> string \<Rightarrow> string" where
  "clark uri local = ''{'' @ uri @ ''}'' @ local"

definition cp_tag :: string where
  "cp_tag = clark ''urn:mpeg:dash:schema:mpd:2011'' ''ContentProtection''"

definition pssh_tag :: string where
  "pssh_tag = clark ''urn:mpeg:cenc:2013'' ''pssh''"

definition mp4protection :: string where
  "mp4protection = ''urn:mpeg:dash:mp4protection:2011''"

definition widevine :: string where
  "widevine = ''urn:uuid:edef8ba9-79d6-4ace-a3c8-27dcd51d21ed''"

definition kid_key :: string where
  "kid_key = ''cenc:default_KID''"

section \<open>Errors\<close>

text \<open>
  Every \<open>raise\<close> of the source is a value. A message that interpolates the API
  response keeps the response itself beside the fixed text. A JSON value is what
  \<open>resp.json()\<close> returns; \<open>JFloat m e\<close> is the finite float \<open>m * 2 ^ e\<close>, and a
  dictionary is the list of its items.
\<close>

datatype json =
  JNull
| JBool bool
| JInt int
| JFloat int int
| JStr string
| JList "json list"
| JDict "(string \<times> json) list"

datatype error =
  ValueError string
| ValueErrorWith string json
| KeyErrorWith string json
| Exception string
| AttributeError
| TypeError
| JSONDecodeError string

text \<open>"Falha ao parsear o manifest MPD XML: "\<close>

definition parse_failure_msg :: string where
  "parse_failure_msg = ''Falha ao parsear o manifest MPD XML: ''"

text \<open>
  "N\~ao foi poss\'ivel extrair kid ou pssh do manifest MPD: ", the two accented
  letters as their UTF-8 bytes.
\<close>

definition missing_msg :: string where
  "missing_msg = ''N'' @ [CHR 0xC3, CHR 0xA3] @ ''o foi poss'' @ [CHR 0xC3, CHR 0xAD]
                 @ ''vel extrair kid ou pssh do manifest MPD: ''"

section \<open>The extraction step of \<open>get_tracks\<close> (lines 177 to 217)\<close>

text \<open>
  The first loop. \<open>kid\<close> is assigned at every element visited and the loop leaves
  at the first truthy value; after the loop \<open>kid\<close> holds the last value assigned.
\<close>

fun kid_loop :: "string option \<Rightarrow> element list \<Rightarrow> call list \<Rightarrow> string option \<times> call list" where
  "kid_loop kid [] log = (kid, log)"
| "kid_loop kid (cp # cps) log =
     (let kid' = get cp kid_key; log' = log @ [Get kid_key]
      in if truthy kid' then (kid', log') else kid_loop kid' cps log')"

text \<open>The body shared by the Widevine loop and the fallback loop.\<close>

definition pssh_of :: "element \<Rightarrow> string option" where
  "pssh_of cp = (case find_child cp pssh_tag of None \<Rightarrow> None | Some pssh_elem \<Rightarrow> etext pssh_elem)"

fun pssh_loop :: "string option \<Rightarrow> element list \<Rightarrow> call list \<Rightarrow> string option \<times> call list" where
  "pssh_loop pssh [] log = (pssh, log)"
| "pssh_loop pssh (cp # cps) log =
     (let pssh' = pssh_of cp; log' = log @ [Find pssh_tag]
      in if truthy pssh' then (pssh', log') else pssh_loop pssh' cps log')"

text \<open>Lines 191 to 196: the scan for the key id.\<close>

definition scan_kid :: "element \<Rightarrow> call list \<Rightarrow> string option \<times> call list" where
  "scan_kid root log =
     (let (cps, log1) = findall root cp_tag (Some (''schemeIdUri'', mp4protection)) log
      in kid_loop None cps log1)"

text \<open>Lines 199 to 205: the scan of the Widevine elements.\<close>

definition scan_widevine :: "element \<Rightarrow> call list \<Rightarrow> string option \<times> call list" where
  "scan_widevine root log =
     (let (cps, log1) = findall root cp_tag (Some (''schemeIdUri'', widevine)) log
      in pssh_loop None cps log1)"

text \<open>
  Lines 208 to 214: the fallback scan of every \<open>ContentProtection\<close> element. The
  variable \<open>pssh\<close> keeps its value when the loop body never runs.
\<close>

definition scan_fallback :: "string option \<Rightarrow> element \<Rightarrow> call list \<Rightarrow> string option \<times> call list" where
  "scan_fallback pssh root log =
     (let (cps, log1) = findall root cp_tag None log
      in pssh_loop pssh cps log1)"

definition extraction ::
  "string \<Rightarrow> element \<Rightarrow> call list \<Rightarrow> (error + string \<times> string) \<times> call list" where
  "extraction manifest_url root log0 =
     (let (kid, log1) = scan_kid root log0;
          (pssh1, log2) = (if truthy kid then scan_widevine root log1 else (None, log1));
          (pssh, log3) =
             (if truthy kid \<and> py_not pssh1 then scan_fallback pssh1 root log2 else (pssh1, log2))
      in (if py_not kid \<or> py_not pssh
          then Inl (ValueError (missing_msg @ manifest_url))
          else Inr (the kid, the pssh),
          log3))"

text \<open>
  Parsing and extraction together. \<open>ET.fromstring\<close> is the standard library's and is
  taken as a parameter: \<open>Inl m\<close> is \<open>ET.ParseError\<close> with message \<open>m\<close>, which the
  source turns into a \<open>ValueError\<close> of its own.
\<close>

definition get_tracks_extraction ::
  "(string \<Rightarrow> string + element) \<Rightarrow> string \<Rightarrow> string \<Rightarrow> call list
     \<Rightarrow> (error + string \<times> string) \<times> call list" where
  "get_tracks_extraction fromstring manifest_url manifest_xml log =
     (case fromstring manifest_xml of
        Inl e \<Rightarrow> (Inl (ValueError (parse_failure_msg @ e)), log)
      | Inr root \<Rightarrow> extraction manifest_url root log)"

section \<open>The manifest URL of \<open>get_tracks\<close> (lines 119 to 121 and 159 to 163)\<close>

text \<open>\<open>a or b\<close> on two \<open>Optional[str]\<close> values.\<close>

definition py_or :: "string option \<Rightarrow> string option \<Rightarrow> string option" where
  "py_or a b = (if truthy a then a else b)"

text \<open>
  \<open>title_id = title_id or self.title_id\<close>, and the \<open>ValueError\<close> when neither is set;
  \<open>get_titles\<close> opens with the same three lines.
\<close>

definition no_title_msg :: string where
  "no_title_msg = ''Nenhum title_id fornecido.''"

definition resolve_title_id :: "string option \<Rightarrow> string option \<Rightarrow> error + string" where
  "resolve_title_id title_id self_title_id =
     (let t = py_or title_id self_title_id
      in if py_not t then Inl (ValueError no_title_msg) else Inr (the t))"

text \<open>
  The stream id and the URL. \<open>content_id\<close> is the text the f-string puts in its
  place.
\<close>

definition stream_id_of :: "string \<Rightarrow> string" where
  "stream_id_of title_id =
     (let stream_id = ''d7137531-aab7-43f7-a15b-a64b0453b4ca''
      in if title_id = ''62b0d862d12d4c0029f05602''
         then ''79f73236-4c3a-4998-8f5d-c14d33a91c9f''
         else stream_id)"

definition manifest_url_of :: "string \<Rightarrow> string \<Rightarrow> string" where
  "manifest_url_of content_id title_id =
     ''https://stream.brasilparalelo.com.br/'' @ content_id @ ''/'' @ stream_id_of title_id
       @ ''/mpd/stream.mpd''"

section \<open>\<open>get_titles\<close> (lines 50 to 116)\<close>

text \<open>Python's truth value of a JSON value.\<close>

fun json_truthy :: "json \<Rightarrow> bool" where
  "json_truthy JNull = False"
| "json_truthy (JBool b) = b"
| "json_truthy (JInt n) = (n \<noteq> 0)"
| "json_truthy (JFloat m e) = (m \<noteq> 0)"
| "json_truthy (JStr s) = (s \<noteq> [])"
| "json_truthy (JList xs) = (xs \<noteq> [])"
| "json_truthy (JDict kvs) = (kvs \<noteq> [])"

text \<open>\<open>d.get(k, default)\<close>; anything but a dictionary has no \<open>get\<close>.\<close>

definition py_get :: "json \<Rightarrow> string \<Rightarrow> json \<Rightarrow> error + json" where
  "py_get d k dflt =
     (case d of
        JDict kvs \<Rightarrow> Inr (case map_of kvs k of Some v \<Rightarrow> v | None \<Rightarrow> dflt)
      | _ \<Rightarrow> Inl AttributeError)"

text \<open>\<open>k in d\<close>: a key of a dictionary, an item of a list, a substring of a string.\<close>

definition is_substring :: "string \<Rightarrow> string \<Rightarrow> bool" where
  "is_substring k s = list_ex (\<lambda>i. take (length k) (drop i s) = k) [0..<Suc (length s)]"

fun py_in :: "string \<Rightarrow> json \<Rightarrow> error + bool" where
  "py_in k (JDict kvs) = Inr (k \<in> set (map fst kvs))"
| "py_in k (JList xs) = Inr (JStr k \<in> set xs)"
| "py_in k (JStr s) = Inr (is_substring k s)"
| "py_in k j = Inl TypeError"

text \<open>\<open>d[k]\<close> with a string \<open>k\<close>.\<close>

definition py_item :: "json \<Rightarrow> string \<Rightarrow> error + json" where
  "py_item d k =
     (case d of
        JDict kvs \<Rightarrow> (case map_of kvs k of Some v \<Rightarrow> Inr v | None \<Rightarrow> Inl (KeyErrorWith [] (JStr k)))
      | _ \<Rightarrow> Inl TypeError)"

text \<open>Sequencing: the first exception raised ends the evaluation.\<close>

definition and_then :: "error + 'a \<Rightarrow> ('a \<Rightarrow> error + 'b) \<Rightarrow> error + 'b" where
  "and_then m f = (case m of Inl e \<Rightarrow> Inl e | Inr x \<Rightarrow> f x)"

text \<open>
  What \<open>session.post\<close>, \<open>raise_for_status\<close> and \<open>resp.json()\<close> come to: a
  \<open>requests.RequestException\<close>, a body that is not JSON, or the decoded body.
\<close>

datatype http_outcome =
  RequestException string
| BodyNotJson string
| Body json

text \<open>The attributes \<open>__init__\<close> sets, and \<open>slug\<close>, which only \<open>get_titles\<close> sets.\<close>

record service =
  self_title_id :: "string option"
  self_is_movie :: bool
  self_device :: string
  self_slug :: "json option"

text \<open>
  Modelled from the spec: the host framework's classes \<open>Movie\<close>, \<open>Movies\<close> and
  \<open>Series\<close> are not in the source ("framework-defined objects (Movies/Series/Track/Widevine)
  that the host application consumes"); here they are values that keep the arguments of
  the constructor calls.
\<close>

datatype movie =
  Movie (movie_id: string) (service_class: string) (movie_name: json) (year: "int option")
        (data: "(string \<times> json) list")

datatype titles =
  Movies "movie list"
| Series (series_id: string) (title: json) (seasons: "(string \<times> json) list list")

definition api_errors_msg :: string where
  "api_errors_msg = ''Erros na resposta da API: ''"

definition no_media_msg :: string where
  "no_media_msg = ''Nenhum dado de m'' @ [CHR 0xC3, CHR 0xAD] @ ''dia retornado pela API: ''"

definition no_name_msg :: string where
  "no_name_msg = ''Chave '' @ [CHR 0x27] @ ''name'' @ [CHR 0x27] @ '' n'' @ [CHR 0xC3, CHR 0xA3]
                 @ ''o encontrada na resposta da API: ''"

definition no_slug_msg :: string where
  "no_slug_msg = ''Chave '' @ [CHR 0x27] @ ''playlist.slug'' @ [CHR 0x27] @ '' n'' @ [CHR 0xC3, CHR 0xA3]
                 @ ''o encontrada na resposta da API: ''"

definition request_failed_msg :: "string \<Rightarrow> string \<Rightarrow> string" where
  "request_failed_msg title_id e = ''Falha ao obter metadados para title_id '' @ title_id @ '': '' @ e"

text \<open>Lines 94 to 116, once \<open>media\<close> is known to be truthy.\<close>

definition titles_of_media ::
  "service \<Rightarrow> string \<Rightarrow> json \<Rightarrow> json \<Rightarrow> (error + titles) \<times> service" where
  "titles_of_media self title_id dat media =
     (case and_then (py_get media ''name'' JNull) (\<lambda>name.
        if \<not> json_truthy name then Inl (KeyErrorWith no_name_msg dat)
        else
          and_then (py_get media ''playlist'' (JDict [])) (\<lambda>playlist.
          and_then (py_get playlist ''type'' (JDict [])) (\<lambda>ptype.
          and_then (py_get ptype ''name'' JNull) (\<lambda>content_type.
          and_then (py_get media ''duration'' JNull) (\<lambda>duration.
          and_then (py_get media ''playlist'' (JDict [])) (\<lambda>playlist2.
          and_then (py_get playlist2 ''slug'' JNull) (\<lambda>slug.
            if \<not> json_truthy slug then Inl (ValueErrorWith no_slug_msg dat)
            else Inr (name, content_type, duration, slug)))))))) of
        Inl e \<Rightarrow> (Inl e, self)
      | Inr (name, content_type, duration, slug) \<Rightarrow>
          (let self' = self\<lparr>self_slug := Some slug\<rparr>
           in if self_is_movie self' \<or> content_type = JStr ''movie''
              then (Inr (Movies [Movie title_id ''BRASIL_PARALELO'' name None [(''duration'', duration)]]), self')
              else (case and_then (py_get media ''playlist'' (JDict [])) (\<lambda>playlist.
                           py_get playlist ''name'' JNull) of
                      Inl e \<Rightarrow> (Inl e, self')
                    | Inr season_name \<Rightarrow> (Inr (Series title_id name [[(''name'', season_name)]]), self'))))"

definition get_titles ::
  "service \<Rightarrow> string option \<Rightarrow> http_outcome \<Rightarrow> (error + titles) \<times> service" where
  "get_titles self title_id_arg outcome =
     (case resolve_title_id title_id_arg (self_title_id self) of
        Inl e \<Rightarrow> (Inl e, self)
      | Inr title_id \<Rightarrow>
          (case outcome of
             RequestException e \<Rightarrow> (Inl (Exception (request_failed_msg title_id e)), self)
           | BodyNotJson e \<Rightarrow> (Inl (JSONDecodeError e), self)
           | Body dat \<Rightarrow>
               (case and_then (py_in ''errors'' dat) (\<lambda>has_errors.
                  if has_errors
                  then and_then (py_item dat ''errors'') (\<lambda>errs. Inl (ValueErrorWith api_errors_msg errs))
                  else
                    and_then (py_get dat ''data'' (JDict [])) (\<lambda>d.
                    and_then (py_get d ''media'' JNull) (\<lambda>media.
                      if \<not> json_truthy media then Inl (ValueErrorWith no_media_msg dat)
                      else Inr media))) of
                  Inl e \<Rightarrow> (Inl e, self)
                | Inr media \<Rightarrow> titles_of_media self title_id dat media)))"

section \<open>\<open>get_chapters\<close>\<close>

text \<open>The body is \<open>return []\<close>; neither \<open>self\<close> nor \<open>title_id\<close> is read.\<close>

definition get_chapters :: "'s \<Rightarrow> string option \<Rightarrow> error + 'c list" where
  "get_chapters self title_id = Inr []"

section \<open>Notions of the specification\<close>

text \<open>
  The first value of a list that is neither \<open>None\<close> nor empty, \<open>None\<close> when there is
  none: "the first non-empty match in document order".
\<close>

fun first_nonempty :: "string option list \<Rightarrow> string option" where
  "first_nonempty [] = None"
| "first_nonempty (v # vs) = (if truthy v then v else first_nonempty vs)"

text \<open>
  The \<open>ContentProtection\<close> elements below the root, those among them with the
  generic-protection scheme URI, and those with the Widevine scheme URI, each in
  document order.
\<close>

definition cp_elements :: "element \<Rightarrow> element list" where
  "cp_elements root = filter (\<lambda>e. tag e = cp_tag) (descendants root)"

definition mp4_elements :: "element \<Rightarrow> element list" where
  "mp4_elements root =
     filter (\<lambda>e. get e ''schemeIdUri'' = Some mp4protection)
       (filter (\<lambda>e. tag e = cp_tag) (descendants root))"

definition widevine_elements :: "element \<Rightarrow> element list" where
  "widevine_elements root =
     filter (\<lambda>e. get e ''schemeIdUri'' = Some widevine)
       (filter (\<lambda>e. tag e = cp_tag) (descendants root))"

text \<open>The \<open>pssh\<close> elements with non-empty text anywhere in the document, the root included.\<close>

definition pssh_texts :: "element \<Rightarrow> element list" where
  "pssh_texts root = filter (\<lambda>e. tag e = pssh_tag \<and> truthy (etext e)) (iter root)"

text \<open>
  The value at a key of a JSON dictionary, \<open>null\<close> when there is none, and the playlist
  type name of an API response.
\<close>

definition field :: "string \<Rightarrow> json \<Rightarrow> json" where
  "field k j = (case j of JDict kvs \<Rightarrow> (case map_of kvs k of Some v \<Rightarrow> v | None \<Rightarrow> JNull) | _ \<Rightarrow> JNull)"

definition playlist_type_name :: "json \<Rightarrow> json" where
  "playlist_type_name dat =
     field ''name'' (field ''type'' (field ''playlist'' (field ''media'' (field ''data'' dat))))"

section \<open>Namespaces in \<open>ET.fromstring\<close>\<close>

text \<open>
  The standard library's parser is namespace-aware, and its documentation says what
  it does with a prefixed name: \<open>prefix:local\<close> becomes \<open>{uri}local\<close>, for tags and
  for attributes, and an unprefixed tag takes the default namespace while an
  unprefixed attribute stays as it is. A prefix that is not bound is a
  \<open>ParseError\<close>. The model below is that step alone, on a document whose markup has
  been read already: names are still as written, \<open>xmlns\<close> declarations are still
  among the attributes. A name is split at its first colon. Checks of the parser
  that do not change the names it produces (reserved prefixes, a second colon in a
  name) are left out.
\<close>

datatype xml =
  Xml (xml_name: string) (xml_attrs: "(string \<times> string) list")
      (xml_chardata: "string option") (xml_content: "xml list")

definition split_qname :: "string \<Rightarrow> (string \<times> string) option" where
  "split_qname n =
     (if CHR '':'' \<in> set n
      then Some (takeWhile (\<lambda>c. c \<noteq> CHR '':'') n, tl (dropWhile (\<lambda>c. c \<noteq> CHR '':'') n))
      else None)"

definition is_declaration :: "string \<Rightarrow> bool" where
  "is_declaration k =
     (k = ''xmlns'' \<or> (case split_qname k of Some (p, l) \<Rightarrow> p = ''xmlns'' | None \<Rightarrow> False))"

text \<open>The bindings in scope inside an element; the default namespace is bound to the empty prefix.\<close>

fun declare_ns ::
  "(string \<times> string) list \<Rightarrow> (string \<times> string) list \<Rightarrow> string + (string \<times> string) list" where
  "declare_ns [] ns = Inr ns"
| "declare_ns ((k, v) # as) ns =
     (if k = ''xmlns'' then declare_ns as (([], v) # ns)
      else (case split_qname k of
              Some (p, l) \<Rightarrow>
                (if p = ''xmlns''
                 then (if v = [] then Inl ''must not undeclare prefix''
                       else declare_ns as ((l, v) # ns))
                 else declare_ns as ns)
            | None \<Rightarrow> declare_ns as ns))"

definition expand_name :: "(string \<times> string) list \<Rightarrow> bool \<Rightarrow> string \<Rightarrow> string + string" where
  "expand_name ns use_default n =
     (case split_qname n of
        Some (p, l) \<Rightarrow>
          (case map_of ns p of Some uri \<Rightarrow> Inr (clark uri l) | None \<Rightarrow> Inl ''unbound prefix'')
      | None \<Rightarrow>
          (case (if use_default then map_of ns [] else None) of
             Some uri \<Rightarrow> (if uri = [] then Inr n else Inr (clark uri n))
           | None \<Rightarrow> Inr n))"

fun expand_attrs ::
  "(string \<times> string) list \<Rightarrow> (string \<times> string) list \<Rightarrow> string + (string \<times> string) list" where
  "expand_attrs ns [] = Inr []"
| "expand_attrs ns ((k, v) # as) =
     (if is_declaration k then expand_attrs ns as
      else (case expand_name ns False k of
              Inl e \<Rightarrow> Inl e
            | Inr k' \<Rightarrow>
                (case expand_attrs ns as of
                   Inl e \<Rightarrow> Inl e
                 | Inr as' \<Rightarrow>
                     (if k' \<in> set (map fst as') then Inl ''duplicate attribute''
                      else Inr ((k', v) # as')))))"

fun collect :: "(string + 'a) list \<Rightarrow> string + 'a list" where
  "collect [] = Inr []"
| "collect (Inl e # rs) = Inl e"
| "collect (Inr x # rs) = (case collect rs of Inl e \<Rightarrow> Inl e | Inr xs \<Rightarrow> Inr (x # xs))"

fun expand_ns :: "(string \<times> string) list \<Rightarrow> xml \<Rightarrow> string + element" where
  "expand_ns ns (Xml n as t cs) =
     (case declare_ns as ns of
        Inl e \<Rightarrow> Inl e
      | Inr ns' \<Rightarrow>
          (case expand_name ns' True n of
             Inl e \<Rightarrow> Inl e
           | Inr n' \<Rightarrow>
               (case expand_attrs ns' as of
                  Inl e \<Rightarrow> Inl e
                | Inr as' \<Rightarrow>
                    (case collect (map (expand_ns ns') cs) of
                       Inl e \<Rightarrow> Inl e
                     | Inr cs' \<Rightarrow> Inr (Element n' as' t cs')))))"

text \<open>The one binding every document starts with.\<close>

definition xml_namespace :: "(string \<times> string) list" where
  "xml_namespace = [(''xml'', ''http://www.w3.org/XML/1998/namespace'')]"

section \<open>Inputs used below\<close>

text \<open>
  A manifest with a key id on the generic-protection element and a Widevine element
  with a \<open>pssh\<close> child:
  \<^verbatim>\<open><MPD xmlns="urn:mpeg:dash:schema:mpd:2011" xmlns:cenc="urn:mpeg:cenc:2013">\<close>
  \<^verbatim>\<open><Period><AdaptationSet>\<close>
  \<^verbatim>\<open><ContentProtection schemeIdUri="urn:mpeg:dash:mp4protection:2011" value="cenc"\<close>
  \<^verbatim>\<open>   cenc:default_KID="9eb4050d-e44b-4802-932e-27d75083e266"/>\<close>
  \<^verbatim>\<open><ContentProtection schemeIdUri="urn:uuid:edef8ba9-79d6-4ace-a3c8-27dcd51d21ed">\<close>
  \<^verbatim>\<open><cenc:pssh>AAAANHBzc2g=</cenc:pssh></ContentProtection>\<close>
  \<^verbatim>\<open></AdaptationSet></Period></MPD>\<close>
\<close>

definition kid_cp_xml :: xml where
  "kid_cp_xml =
     Xml ''ContentProtection''
       [(''schemeIdUri'', ''urn:mpeg:dash:mp4protection:2011''), (''value'', ''cenc''),
        (''cenc:default_KID'', ''9eb4050d-e44b-4802-932e-27d75083e266'')] None []"

definition widevine_manifest :: xml where
  "widevine_manifest =
     Xml ''MPD''
       [(''xmlns'', ''urn:mpeg:dash:schema:mpd:2011''), (''xmlns:cenc'', ''urn:mpeg:cenc:2013'')] None
       [Xml ''Period'' [] None
          [Xml ''AdaptationSet'' [] None
             [kid_cp_xml,
              Xml ''ContentProtection''
                [(''schemeIdUri'', ''urn:uuid:edef8ba9-79d6-4ace-a3c8-27dcd51d21ed'')] None
                [Xml ''cenc:pssh'' [] (Some ''AAAANHBzc2g='') []]]]]"

text \<open>The tree \<open>ET.fromstring\<close> returns for it.\<close>

definition kid_cp :: element where
  "kid_cp =
     Element ''{urn:mpeg:dash:schema:mpd:2011}ContentProtection''
       [(''schemeIdUri'', ''urn:mpeg:dash:mp4protection:2011''), (''value'', ''cenc''),
        (''{urn:mpeg:cenc:2013}default_KID'', ''9eb4050d-e44b-4802-932e-27d75083e266'')] None []"

definition widevine_cp :: element where
  "widevine_cp =
     Element ''{urn:mpeg:dash:schema:mpd:2011}ContentProtection''
       [(''schemeIdUri'', ''urn:uuid:edef8ba9-79d6-4ace-a3c8-27dcd51d21ed'')] None
       [Element ''{urn:mpeg:cenc:2013}pssh'' [] (Some ''AAAANHBzc2g='') []]"

definition mpd :: "element list \<Rightarrow> element" where
  "mpd cps =
     Element ''{urn:mpeg:dash:schema:mpd:2011}MPD'' [] None
       [Element ''{urn:mpeg:dash:schema:mpd:2011}Period'' [] None
          [Element ''{urn:mpeg:dash:schema:mpd:2011}AdaptationSet'' [] None cps]]"

definition widevine_tree :: element where
  "widevine_tree = mpd [kid_cp, widevine_cp]"

text \<open>
  The same manifest with a PlayReady element in place of the Widevine one: the only
  \<open>pssh\<close> is under a non-Widevine \<open>ContentProtection\<close>.
\<close>

definition playready_manifest :: xml where
  "playready_manifest =
     Xml ''MPD''
       [(''xmlns'', ''urn:mpeg:dash:schema:mpd:2011''), (''xmlns:cenc'', ''urn:mpeg:cenc:2013'')] None
       [Xml ''Period'' [] None
          [Xml ''AdaptationSet'' [] None
             [kid_cp_xml,
              Xml ''ContentProtection''
                [(''schemeIdUri'', ''urn:uuid:9a04f079-9840-4286-ab92-e65be0885f95'')] None
                [Xml ''cenc:pssh'' [] (Some ''AAAANHBzc2g='') []]]]]"

definition playready_cp :: element where
  "playready_cp =
     Element ''{urn:mpeg:dash:schema:mpd:2011}ContentProtection''
       [(''schemeIdUri'', ''urn:uuid:9a04f079-9840-4286-ab92-e65be0885f95'')] None
       [Element ''{urn:mpeg:cenc:2013}pssh'' [] (Some ''AAAANHBzc2g='') []]"

definition playready_tree :: element where
  "playready_tree = mpd [kid_cp, playready_cp]"

text \<open>A manifest whose generic-protection element has no key id at all.\<close>

definition bare_cp :: element where
  "bare_cp =
     Element ''{urn:mpeg:dash:schema:mpd:2011}ContentProtection''
       [(''schemeIdUri'', ''urn:mpeg:dash:mp4protection:2011''), (''value'', ''cenc'')] None []"

definition no_kid_tree :: element where
  "no_kid_tree = mpd [bare_cp, widevine_cp]"

text \<open>A manifest with a key id and no \<open>pssh\<close> element anywhere.\<close>

definition no_pssh_tree :: element where
  "no_pssh_tree = mpd [kid_cp]"

text \<open>
  A generic-protection element whose key id sits under the very key the first loop
  reads, and the two shapes of manifest above with it in place of the parsed
  element. The parser returns no such tree.
\<close>

definition second_cp :: element where
  "second_cp =
     Element ''{urn:mpeg:dash:schema:mpd:2011}ContentProtection''
       [(''schemeIdUri'', ''urn:mpeg:dash:mp4protection:2011''),
        (''cenc:default_KID'', ''9eb4050d-e44b-4802-932e-27d75083e266'')] None []"

definition keyed_widevine_tree :: element where
  "keyed_widevine_tree = mpd [second_cp, widevine_cp]"

definition keyed_playready_tree :: element where
  "keyed_playready_tree = mpd [second_cp, playready_cp]"

text \<open>Two API responses and the service object the command line builds.\<close>

definition movie_response :: json where
  "movie_response =
     JDict [(''data'', JDict [(''media'', JDict
        [(''id'', JStr ''62b0d862d12d4c0029f05602''), (''name'', JStr ''Entre Lobos''),
         (''duration'', JInt 5400),
         (''playlist'', JDict [(''type'', JDict [(''name'', JStr ''movie'')]),
                               (''name'', JStr ''Entre Lobos''), (''slug'', JStr ''entre-lobos'')])])])]"

definition series_response :: json where
  "series_response =
     JDict [(''data'', JDict [(''media'', JDict
        [(''id'', JStr ''62b0d862d12d4c0029f05602''), (''name'', JStr ''Episodio 1''),
         (''duration'', JInt 3000),
         (''playlist'', JDict [(''type'', JDict [(''name'', JStr ''series'')]),
                               (''name'', JStr ''Entre Lobos''), (''slug'', JStr ''entre-lobos'')])])])]"

definition cli_service :: "bool \<Rightarrow> service" where
  "cli_service movie =
     \<lparr>self_title_id = Some ''62b0d862d12d4c0029f05602'', self_is_movie = movie,
      self_device = ''web'', self_slug = None\<rparr>"

section \<open>The loops\<close>

text \<open>
  Entered with a false value, a loop ends with the first non-empty value its body
  computes, or with a false value when there is none.
\<close>

lemma first_nonempty_Some: "first_nonempty vs = Some s \<Longrightarrow> s \<noteq> []"
  by (induction vs) (auto simp: truthy_def split: if_splits option.splits)

lemma kid_loop_Some:
  "\<not> truthy kid \<Longrightarrow> first_nonempty (map (\<lambda>cp. get cp kid_key) cps) = Some k \<Longrightarrow>
     fst (kid_loop kid cps log) = Some k"
proof (induction cps arbitrary: kid log)
  case Nil
  then show ?case by simp
next
  case (Cons cp cps)
  show ?case
  proof (cases "truthy (get cp kid_key)")
    case True
    then show ?thesis using Cons.prems by (simp add: Let_def)
  next
    case False
    then show ?thesis using Cons.prems Cons.IH [OF False, of "log @ [Get kid_key]"] by (simp add: Let_def)
  qed
qed

lemma kid_loop_None:
  "\<not> truthy kid \<Longrightarrow> first_nonempty (map (\<lambda>cp. get cp kid_key) cps) = None \<Longrightarrow>
     \<not> truthy (fst (kid_loop kid cps log))"
proof (induction cps arbitrary: kid log)
  case Nil
  then show ?case by simp
next
  case (Cons cp cps)
  show ?case
  proof (cases "truthy (get cp kid_key)")
    case True
    then show ?thesis using Cons.prems by (simp add: truthy_def)
  next
    case False
    then show ?thesis using Cons.prems Cons.IH [OF False, of "log @ [Get kid_key]"] by (simp add: Let_def)
  qed
qed

lemma pssh_loop_Some:
  "\<not> truthy pssh \<Longrightarrow> first_nonempty (map pssh_of cps) = Some p \<Longrightarrow>
     fst (pssh_loop pssh cps log) = Some p"
proof (induction cps arbitrary: pssh log)
  case Nil
  then show ?case by simp
next
  case (Cons cp cps)
  show ?case
  proof (cases "truthy (pssh_of cp)")
    case True
    then show ?thesis using Cons.prems by (simp add: Let_def)
  next
    case False
    then show ?thesis using Cons.prems Cons.IH [OF False, of "log @ [Find pssh_tag]"] by (simp add: Let_def)
  qed
qed

lemma pssh_loop_None:
  "\<not> truthy pssh \<Longrightarrow> first_nonempty (map pssh_of cps) = None \<Longrightarrow>
     \<not> truthy (fst (pssh_loop pssh cps log))"
proof (induction cps arbitrary: pssh log)
  case Nil
  then show ?case by simp
next
  case (Cons cp cps)
  show ?case
  proof (cases "truthy (pssh_of cp)")
    case True
    then show ?thesis using Cons.prems by (simp add: truthy_def)
  next
    case False
    then show ?thesis using Cons.prems Cons.IH [OF False, of "log @ [Find pssh_tag]"] by (simp add: Let_def)
  qed
qed

lemma kid_loop_calls:
  "first_nonempty (map (\<lambda>cp. get cp kid_key) cps) = None \<Longrightarrow>
   snd (kid_loop kid cps log) = log @ replicate (length cps) (Get kid_key)"
proof (induction cps arbitrary: kid log)
  case Nil
  show ?case by simp
next
  case (Cons cp cps)
  from Cons.prems have f: "\<not> truthy (get cp kid_key)"
    and r: "first_nonempty (map (\<lambda>cp. get cp kid_key) cps) = None"
    by (auto split: if_splits simp: truthy_def)
  show ?case using f Cons.IH [OF r, of "get cp kid_key" "log @ [Get kid_key]"]
    by (simp add: Let_def replicate_app_Cons_same)
qed

lemma scan_kid_eq: "scan_kid root log = kid_loop None (mp4_elements root) (log @ [Findall cp_tag (Some (''schemeIdUri'', mp4protection))])"
  by (simp add: scan_kid_def findall_def mp4_elements_def)

lemma scan_widevine_eq: "scan_widevine root log = pssh_loop None (widevine_elements root) (log @ [Findall cp_tag (Some (''schemeIdUri'', widevine))])"
  by (simp add: scan_widevine_def findall_def widevine_elements_def)

lemma scan_fallback_eq: "scan_fallback p root log = pssh_loop p (cp_elements root) (log @ [Findall cp_tag None])"
  by (simp add: scan_fallback_def findall_def cp_elements_def)

lemma not_truthy_None: "\<not> truthy None"
  by (simp add: truthy_def)

section \<open>The extraction on a tree\<close>

lemma truthy_Some_first: "first_nonempty vs = Some s \<Longrightarrow> truthy (Some s)"
  using first_nonempty_Some [of vs s] by (simp add: truthy_def)

lemma extraction_widevine:
  assumes k: "first_nonempty (map (\<lambda>cp. get cp kid_key) (mp4_elements root)) = Some k"
    and p: "first_nonempty (map pssh_of (widevine_elements root)) = Some p"
  shows "fst (extraction url root log) = Inr (k, p)"
proof -
  have "fst (scan_kid root log) = Some k"
    using kid_loop_Some [OF not_truthy_None k] by (simp add: scan_kid_eq)
  then obtain l1 where s1: "scan_kid root log = (Some k, l1)"
    by (cases "scan_kid root log") simp
  have "fst (scan_widevine root l1) = Some p"
    using pssh_loop_Some [OF not_truthy_None p] by (simp add: scan_widevine_eq)
  then obtain l2 where s2: "scan_widevine root l1 = (Some p, l2)"
    by (cases "scan_widevine root l1") simp
  show ?thesis
    using truthy_Some_first [OF k] truthy_Some_first [OF p]
    by (simp add: extraction_def s1 s2 py_not_def)
qed

lemma extraction_fallback:
  assumes k: "first_nonempty (map (\<lambda>cp. get cp kid_key) (mp4_elements root)) = Some k"
    and w: "first_nonempty (map pssh_of (widevine_elements root)) = None"
    and p: "first_nonempty (map pssh_of (cp_elements root)) = Some p"
  shows "fst (extraction url root log) = Inr (k, p)"
proof -
  have "fst (scan_kid root log) = Some k"
    using kid_loop_Some [OF not_truthy_None k] by (simp add: scan_kid_eq)
  then obtain l1 where s1: "scan_kid root log = (Some k, l1)"
    by (cases "scan_kid root log") simp
  obtain p1 l2 where s2: "scan_widevine root l1 = (p1, l2)"
    by (cases "scan_widevine root l1")
  have np1: "\<not> truthy p1"
    using pssh_loop_None [OF not_truthy_None w, of "l1 @ [Findall cp_tag (Some (''schemeIdUri'', widevine))]"] s2
    by (simp add: scan_widevine_eq)
  have "fst (scan_fallback p1 root l2) = Some p"
    using pssh_loop_Some [OF np1 p] by (simp add: scan_fallback_eq)
  then obtain l3 where s3: "scan_fallback p1 root l2 = (Some p, l3)"
    by (cases "scan_fallback p1 root l2") simp
  show ?thesis
    using truthy_Some_first [OF k] truthy_Some_first [OF p] np1
    by (simp add: extraction_def s1 s2 s3 py_not_def)
qed

lemma extraction_no_kid:
  assumes k: "first_nonempty (map (\<lambda>cp. get cp kid_key) (mp4_elements root)) = None"
  shows "extraction url root log =
           (Inl (ValueError (missing_msg @ url)),
            log @ Findall cp_tag (Some (''schemeIdUri'', mp4protection))
                  # replicate (length (mp4_elements root)) (Get kid_key))"
proof -
  obtain kid l1 where s1: "scan_kid root log = (kid, l1)" by (cases "scan_kid root log")
  have nk: "\<not> truthy kid"
    using kid_loop_None [OF not_truthy_None k, of "log @ [Findall cp_tag (Some (''schemeIdUri'', mp4protection))]"] s1
    by (simp add: scan_kid_eq)
  have l1: "l1 = log @ Findall cp_tag (Some (''schemeIdUri'', mp4protection)) # replicate (length (mp4_elements root)) (Get kid_key)"
    using kid_loop_calls [OF k, of None "log @ [Findall cp_tag (Some (''schemeIdUri'', mp4protection))]"] s1
    by (simp add: scan_kid_eq)
  show ?thesis
    using nk by (simp add: extraction_def s1 l1 py_not_def)
qed

lemma iter_self: "e \<in> set (iter e)"
  by (cases e) simp

lemma iter_trans: "e \<in> set (iter r) \<Longrightarrow> set (iter e) \<subseteq> set (iter r)"
proof (induction r rule: iter.induct)
  case (1 t a x cs)
  show ?case
  proof (cases "e = Element t a x cs")
    case True
    then show ?thesis by simp
  next
    case False
    with "1.prems" obtain c where c: "c \<in> set cs" "e \<in> set (iter c)" by auto
    from "1.IH" [OF c] c(1) show ?thesis by auto
  qed
qed

lemma child_in_iter: "c \<in> set (children e) \<Longrightarrow> c \<in> set (iter e)"
  using iter_self [of c] by (cases e) auto

lemma descendants_in_iter: "e \<in> set (descendants r) \<Longrightarrow> e \<in> set (iter r)"
  by (cases r) (auto simp: descendants_def)

lemma pssh_of_falsy:
  assumes "pssh_texts r = []" and "cp \<in> set (iter r)"
  shows "\<not> truthy (pssh_of cp)"
proof (cases "find_child cp pssh_tag")
  case None
  then show ?thesis by (simp add: pssh_of_def truthy_def)
next
  case (Some c)
  then have "c \<in> set (children cp)" and t: "tag c = pssh_tag"
    by (auto simp: find_child_def find_Some_iff)
  then have "c \<in> set (iter r)"
    using child_in_iter [of c cp] iter_trans [OF assms(2)] by auto
  with assms(1) t have "\<not> truthy (etext c)"
    by (auto simp: pssh_texts_def filter_empty_conv)
  with Some show ?thesis by (simp add: pssh_of_def)
qed

lemma first_nonempty_None: "(\<And>x. x \<in> set xs \<Longrightarrow> \<not> truthy (f x)) \<Longrightarrow> first_nonempty (map f xs) = None"
  by (induction xs) auto

lemma no_pssh_widevine:
  assumes "pssh_texts r = []"
  shows "first_nonempty (map pssh_of (widevine_elements r)) = None"
proof (rule first_nonempty_None)
  fix x assume "x \<in> set (widevine_elements r)"
  then have "x \<in> set (iter r)"
    by (simp add: widevine_elements_def descendants_in_iter)
  then show "\<not> truthy (pssh_of x)" by (rule pssh_of_falsy [OF assms])
qed

lemma no_pssh_any:
  assumes "pssh_texts r = []"
  shows "first_nonempty (map pssh_of (cp_elements r)) = None"
proof (rule first_nonempty_None)
  fix x assume "x \<in> set (cp_elements r)"
  then have "x \<in> set (iter r)"
    by (simp add: cp_elements_def descendants_in_iter)
  then show "\<not> truthy (pssh_of x)" by (rule pssh_of_falsy [OF assms])
qed

lemma extraction_no_pssh:
  assumes "pssh_texts root = []"
  shows "fst (extraction url root log) = Inl (ValueError (missing_msg @ url))"
proof -
  obtain kid l1 where s1: "scan_kid root log = (kid, l1)" by (cases "scan_kid root log")
  obtain p1 l2 where s2: "scan_widevine root l1 = (p1, l2)" by (cases "scan_widevine root l1")
  obtain p2 l3 where s3: "scan_fallback p1 root l2 = (p2, l3)" by (cases "scan_fallback p1 root l2")
  have np1: "\<not> truthy p1"
    using pssh_loop_None [OF not_truthy_None no_pssh_widevine [OF assms], of "l1 @ [Findall cp_tag (Some (''schemeIdUri'', widevine))]"] s2
    by (simp add: scan_widevine_eq)
  have np2: "\<not> truthy p2"
    using pssh_loop_None [OF np1 no_pssh_any [OF assms], of "l2 @ [Findall cp_tag None]"] s3
    by (simp add: scan_fallback_eq)
  show ?thesis
    using np1 np2 by (simp add: extraction_def s1 s2 s3 py_not_def truthy_def)
qed

section \<open>The inputs\<close>

lemmas tree_defs = mpd_def kid_cp_def widevine_cp_def playready_cp_def bare_cp_def second_cp_def
lemmas const_defs = cp_tag_def pssh_tag_def clark_def mp4protection_def widevine_def kid_key_def
lemmas ns_defs = expand_name_def split_qname_def is_declaration_def clark_def xml_namespace_def kid_cp_xml_def

lemma descendants_mpd:
  "descendants (mpd cps) =
     Element ''{urn:mpeg:dash:schema:mpd:2011}Period'' [] None
       [Element ''{urn:mpeg:dash:schema:mpd:2011}AdaptationSet'' [] None cps]
     # Element ''{urn:mpeg:dash:schema:mpd:2011}AdaptationSet'' [] None cps
     # concat (map iter cps)"
  by (simp add: mpd_def descendants_def)

lemma widevine_expand: "expand_ns xml_namespace widevine_manifest = Inr widevine_tree"
  by (simp add: widevine_manifest_def widevine_tree_def tree_defs ns_defs)

lemma playready_expand: "expand_ns xml_namespace playready_manifest = Inr playready_tree"
  by (simp add: playready_manifest_def playready_tree_def tree_defs ns_defs)

lemma mp4_widevine_tree: "mp4_elements widevine_tree = [kid_cp]"
  by (simp add: mp4_elements_def widevine_tree_def descendants_mpd)
     (simp add: kid_cp_def widevine_cp_def const_defs get_def)

lemma mp4_playready_tree: "mp4_elements playready_tree = [kid_cp]"
  by (simp add: mp4_elements_def playready_tree_def descendants_mpd)
     (simp add: kid_cp_def playready_cp_def const_defs get_def)

lemma mp4_no_kid_tree: "mp4_elements no_kid_tree = [bare_cp]"
  by (simp add: mp4_elements_def no_kid_tree_def descendants_mpd)
     (simp add: bare_cp_def widevine_cp_def const_defs get_def)

lemma mp4_no_pssh_tree: "mp4_elements no_pssh_tree = [kid_cp]"
  by (simp add: mp4_elements_def no_pssh_tree_def descendants_mpd)
     (simp add: kid_cp_def const_defs get_def)

lemma get_kid_cp: "get kid_cp kid_key = None"
  by (simp add: kid_cp_def get_def kid_key_def)

lemma get_bare_cp: "get bare_cp kid_key = None"
  by (simp add: bare_cp_def get_def kid_key_def)

lemma get_second_cp: "get second_cp kid_key = Some ''9eb4050d-e44b-4802-932e-27d75083e266''"
  by (simp add: second_cp_def get_def kid_key_def)

text \<open>
  With the key id under the key the loop reads, the Widevine manifest yields its pair
  and the PlayReady manifest yields its pair through the fallback scan.
\<close>

lemma keyed_widevine_tree_pair:
  "fst (extraction url keyed_widevine_tree log) = Inr (''9eb4050d-e44b-4802-932e-27d75083e266'', ''AAAANHBzc2g='')"
proof -
  have m: "mp4_elements keyed_widevine_tree = [second_cp]"
    by (simp add: mp4_elements_def keyed_widevine_tree_def descendants_mpd)
       (simp add: second_cp_def widevine_cp_def const_defs get_def)
  have w: "widevine_elements keyed_widevine_tree = [widevine_cp]"
    by (simp add: widevine_elements_def keyed_widevine_tree_def descendants_mpd)
       (simp add: second_cp_def widevine_cp_def const_defs get_def)
  have p: "pssh_of widevine_cp = Some ''AAAANHBzc2g=''"
    by (simp add: pssh_of_def find_child_def widevine_cp_def const_defs)
  show ?thesis
    by (rule extraction_widevine) (simp_all add: m w p get_second_cp truthy_def)
qed

lemma keyed_playready_tree_pair:
  "fst (extraction url keyed_playready_tree log) = Inr (''9eb4050d-e44b-4802-932e-27d75083e266'', ''AAAANHBzc2g='')"
proof -
  have m: "mp4_elements keyed_playready_tree = [second_cp]"
    by (simp add: mp4_elements_def keyed_playready_tree_def descendants_mpd)
       (simp add: second_cp_def playready_cp_def const_defs get_def)
  have w: "widevine_elements keyed_playready_tree = []"
    by (simp add: widevine_elements_def keyed_playready_tree_def descendants_mpd)
       (simp add: second_cp_def playready_cp_def const_defs get_def)
  have c: "cp_elements keyed_playready_tree = [second_cp, playready_cp]"
    by (simp add: cp_elements_def keyed_playready_tree_def descendants_mpd)
       (simp add: second_cp_def playready_cp_def const_defs)
  have p: "pssh_of second_cp = None" "pssh_of playready_cp = Some ''AAAANHBzc2g=''"
    by (simp_all add: pssh_of_def find_child_def second_cp_def playready_cp_def const_defs)
  show ?thesis
    by (rule extraction_fallback) (simp_all add: m w c p get_second_cp truthy_def)
qed

section \<open>\<open>get_titles\<close> on a response\<close>

lemma and_then_Inr: "and_then m f = Inr y \<longleftrightarrow> (\<exists>x. m = Inr x \<and> f x = Inr y)"
  by (cases m) (simp_all add: and_then_def)

lemma py_get_Inr:
  "py_get d k dflt = Inr v \<longleftrightarrow>
     (\<exists>kvs. d = JDict kvs \<and> v = (case map_of kvs k of Some v \<Rightarrow> v | None \<Rightarrow> dflt))"
  by (cases d) (auto simp: py_get_def)

lemma field_JDict: "field k (JDict kvs) = (case map_of kvs k of Some v \<Rightarrow> v | None \<Rightarrow> JNull)"
  by (simp add: field_def)

lemma field_default_dict:
  "field k (case map_of kvs k' of Some v \<Rightarrow> v | None \<Rightarrow> JDict []) = field k (field k' (JDict kvs))"
  by (simp add: field_def split: option.splits)

lemma media_fields:
  assumes "and_then (py_get media ''name'' JNull) (\<lambda>name.
        if \<not> json_truthy name then Inl (KeyErrorWith no_name_msg dat)
        else
          and_then (py_get media ''playlist'' (JDict [])) (\<lambda>playlist.
          and_then (py_get playlist ''type'' (JDict [])) (\<lambda>ptype.
          and_then (py_get ptype ''name'' JNull) (\<lambda>content_type.
          and_then (py_get media ''duration'' JNull) (\<lambda>duration.
          and_then (py_get media ''playlist'' (JDict [])) (\<lambda>playlist2.
          and_then (py_get playlist2 ''slug'' JNull) (\<lambda>slug.
            if \<not> json_truthy slug then Inl (ValueErrorWith no_slug_msg dat)
            else Inr (name, content_type, duration, slug)))))))) = Inr (name, content_type, duration, slug)"
  shows "content_type = field ''name'' (field ''type'' (field ''playlist'' media))
         \<and> (\<exists>kvs. field ''playlist'' media = JDict kvs) \<and> (\<exists>kvs. media = JDict kvs)"
  using assms
  by (clarsimp simp: and_then_Inr py_get_Inr split: if_splits)
     (auto simp: field_def split: option.splits)

lemma titles_of_media_result:
  assumes "fst (titles_of_media self title_id dat media) = Inr r"
  shows "(if self_is_movie self \<or> field ''name'' (field ''type'' (field ''playlist'' media)) = JStr ''movie''
          then \<exists>m. r = Movies [m]
          else \<exists>i t s. r = Series i t s)"
proof -
  let ?chain = "and_then (py_get media ''name'' JNull) (\<lambda>name.
        if \<not> json_truthy name then Inl (KeyErrorWith no_name_msg dat)
        else
          and_then (py_get media ''playlist'' (JDict [])) (\<lambda>playlist.
          and_then (py_get playlist ''type'' (JDict [])) (\<lambda>ptype.
          and_then (py_get ptype ''name'' JNull) (\<lambda>content_type.
          and_then (py_get media ''duration'' JNull) (\<lambda>duration.
          and_then (py_get media ''playlist'' (JDict [])) (\<lambda>playlist2.
          and_then (py_get playlist2 ''slug'' JNull) (\<lambda>slug.
            if \<not> json_truthy slug then Inl (ValueErrorWith no_slug_msg dat)
            else Inr (name, content_type, duration, slug))))))))"
  from assms obtain name content_type duration slug
    where c: "?chain = Inr (name, content_type, duration, slug)"
    by (cases ?chain) (auto simp: titles_of_media_def)
  from media_fields [OF c]
  have ct: "content_type = field ''name'' (field ''type'' (field ''playlist'' media))" by simp
  show ?thesis
    using assms ct
    by (auto simp: titles_of_media_def c Let_def split: sum.splits)
qed

lemma get_titles_media:
  assumes "fst (get_titles self title_id_arg outcome) = Inr r"
  shows "\<exists>dat tid. outcome = Body dat
           \<and> fst (titles_of_media self tid dat (field ''media'' (field ''data'' dat))) = Inr r"
proof -
  from assms obtain tid where t: "resolve_title_id title_id_arg (self_title_id self) = Inr tid"
    by (cases "resolve_title_id title_id_arg (self_title_id self)") (auto simp: get_titles_def)
  from assms t obtain dat where o: "outcome = Body dat"
    by (cases outcome) (auto simp: get_titles_def)
  let ?pre = "and_then (py_in ''errors'' dat) (\<lambda>has_errors.
                  if has_errors
                  then and_then (py_item dat ''errors'') (\<lambda>errs. Inl (ValueErrorWith api_errors_msg errs))
                  else
                    and_then (py_get dat ''data'' (JDict [])) (\<lambda>d.
                    and_then (py_get d ''media'' JNull) (\<lambda>media.
                      if \<not> json_truthy media then Inl (ValueErrorWith no_media_msg dat)
                      else Inr media)))"
  from assms t o obtain media where p: "?pre = Inr media"
    by (cases ?pre) (auto simp: get_titles_def)
  have m: "media = field ''media'' (field ''data'' dat)"
    using p
    by (clarsimp simp: and_then_Inr py_get_Inr split: if_splits)
       (auto simp: field_def split: option.splits)
  from assms t o p m
  have "fst (titles_of_media self tid dat (field ''media'' (field ''data'' dat))) = Inr r"
    by (simp add: get_titles_def)
  with o show ?thesis by blast
qed

lemma movie_run:
  "fst (get_titles (cli_service False) None (Body movie_response)) =
     Inr (Movies [Movie ''62b0d862d12d4c0029f05602'' ''BRASIL_PARALELO'' (JStr ''Entre Lobos'') None
                    [(''duration'', JInt 5400)]])"
  by (simp add: get_titles_def titles_of_media_def cli_service_def movie_response_def
        resolve_title_id_def py_or_def py_not_def truthy_def and_then_def py_get_def Let_def)

lemma series_run:
  "fst (get_titles (cli_service False) None (Body series_response)) =
     Inr (Series ''62b0d862d12d4c0029f05602'' (JStr ''Episodio 1'') [[(''name'', JStr ''Entre Lobos'')]])"
  by (simp add: get_titles_def titles_of_media_def cli_service_def series_response_def
        resolve_title_id_def py_or_def py_not_def truthy_def and_then_def py_get_def Let_def)

section \<open>Every parsed manifest\<close>

text \<open>
  A name that goes through the namespace step comes out either without a colon or
  in the form \<open>{uri}local\<close>, so no attribute of a parsed tree is keyed
  \<open>cenc:default_KID\<close>: on every manifest the parser accepts, the first loop finds no
  key id and the extraction raises the \<open>ValueError\<close> for a missing field.
\<close>

lemma expand_name_not_kid_key: "expand_name ns d n = Inr k \<Longrightarrow> k \<noteq> kid_key"
  by (auto simp: expand_name_def split_qname_def clark_def kid_key_def
           split: if_splits option.splits)

lemma expand_attrs_no_kid_key: "expand_attrs ns as = Inr as' \<Longrightarrow> kid_key \<notin> set (map fst as')"
proof (induction as arbitrary: as')
  case Nil
  then show ?case by simp
next
  case (Cons a as)
  obtain k v where a: "a = (k, v)" by (cases a)
  show ?case
    using Cons.prems Cons.IH expand_name_not_kid_key [of ns False k]
    by (auto simp: a split: if_splits sum.splits)
qed

lemma collect_Inr: "collect rs = Inr xs \<Longrightarrow> x \<in> set xs \<Longrightarrow> Inr x \<in> set rs"
proof (induction rs arbitrary: xs)
  case Nil
  then show ?case by simp
next
  case (Cons r rs)
  then show ?case
    by (cases r) (auto split: sum.splits)
qed

lemma expand_ns_no_kid_key:
  "expand_ns ns x = Inr e \<Longrightarrow> e' \<in> set (iter e) \<Longrightarrow> get e' kid_key = None"
proof (induction ns x arbitrary: e e' rule: expand_ns.induct)
  case (1 ns n as t cs)
  from "1.prems"(1) obtain ns' n' as' cs' where
    d: "declare_ns as ns = Inr ns'" and nm: "expand_name ns' True n = Inr n'"
    and a: "expand_attrs ns' as = Inr as'"
    and c: "collect (map (expand_ns ns') cs) = Inr cs'"
    and e: "e = Element n' as' t cs'"
    by (auto split: sum.splits)
  show ?case
  proof (cases "e' = e")
    case True
    with e expand_attrs_no_kid_key [OF a] show ?thesis
      by (simp add: get_def map_of_eq_None_iff)
  next
    case False
    with "1.prems"(2) e obtain c' where c': "c' \<in> set cs'" "e' \<in> set (iter c')" by auto
    from collect_Inr [OF c c'(1)] obtain x where x: "x \<in> set cs" "expand_ns ns' x = Inr c'" by auto
    from "1.IH" [OF d nm a x(1) x(2) c'(2)] show ?thesis .
  qed
qed

lemma parsed_no_kid:
  assumes "expand_ns ns x = Inr root"
  shows "first_nonempty (map (\<lambda>cp. get cp kid_key) (mp4_elements root)) = None"
proof (rule first_nonempty_None)
  fix cp assume "cp \<in> set (mp4_elements root)"
  then have "cp \<in> set (iter root)"
    by (simp add: mp4_elements_def descendants_in_iter)
  from expand_ns_no_kid_key [OF assms this] show "\<not> truthy (get cp kid_key)"
    by (simp add: truthy_def)
qed

lemma parsed_manifest_always_rejected:
  assumes "expand_ns ns x = Inr root"
  shows "fst (extraction url root log) = Inl (ValueError (missing_msg @ url))"
  using extraction_no_kid [OF parsed_no_kid [OF assms], of url log] by simp

section \<open>The properties of the specification\<close>

text \<open>
  C1. A manifest with a key id on its generic-protection element and a Widevine
  element with a non-empty \<open>pssh\<close> child is to yield exactly that pair. On the Widevine
  manifest above it does not. \<open>ET.fromstring\<close> stores the attribute
  \<open>cenc:default_KID\<close> under the key \<open>{urn:mpeg:cenc:2013}default_KID\<close>, and the first loop
  asks \<open>Element.get\<close> for the key \<open>cenc:default_KID\<close>, which no parsed element has:
  \<open>kid\<close> stays \<open>None\<close>, neither \<open>pssh\<close> scan runs and the \<open>ValueError\<close> for a
  missing field is raised, although the Widevine element and its \<open>pssh\<close> are found by
  the searches that do pass \<open>namespaces\<close>. The same happens on every manifest the
  parser accepts, as shown in the section before this one.
\<close>

theorem widevine_manifest_rejected:
  "expand_ns xml_namespace widevine_manifest = Inr widevine_tree
   \<and> widevine_elements widevine_tree = [widevine_cp]
   \<and> pssh_of widevine_cp = Some ''AAAANHBzc2g=''
   \<and> mp4_elements widevine_tree = [kid_cp]
   \<and> get kid_cp (clark ''urn:mpeg:cenc:2013'' ''default_KID'') = Some ''9eb4050d-e44b-4802-932e-27d75083e266''
   \<and> extraction url widevine_tree [] =
       (Inl (ValueError (missing_msg @ url)),
        [Findall cp_tag (Some (''schemeIdUri'', mp4protection)), Get kid_key])"
proof -
  have w: "widevine_elements widevine_tree = [widevine_cp]"
    by (simp add: widevine_elements_def widevine_tree_def descendants_mpd)
       (simp add: kid_cp_def widevine_cp_def const_defs get_def)
  have p: "pssh_of widevine_cp = Some ''AAAANHBzc2g=''"
    by (simp add: pssh_of_def find_child_def widevine_cp_def const_defs)
  have g: "get kid_cp (clark ''urn:mpeg:cenc:2013'' ''default_KID'') = Some ''9eb4050d-e44b-4802-932e-27d75083e266''"
    by (simp add: kid_cp_def get_def clark_def)
  have e: "extraction url widevine_tree [] =
       (Inl (ValueError (missing_msg @ url)),
        [Findall cp_tag (Some (''schemeIdUri'', mp4protection)), Get kid_key])"
    using extraction_no_kid [of widevine_tree url "[]"]
    by (simp add: mp4_widevine_tree get_kid_cp truthy_def)
  from widevine_expand w p mp4_widevine_tree g e show ?thesis by simp
qed

text \<open>
  C2. The key id is to be the \<open>default_KID\<close> attribute of the first element
  matching the generic-protection scheme URI. On the Widevine manifest above the
  first and only match carries that attribute, with a non-empty value, and the first
  loop leaves \<open>kid\<close> at \<open>None\<close> after its one \<open>get\<close>: the parsed attribute is keyed
  \<open>{urn:mpeg:cenc:2013}default_KID\<close> and the loop reads the key \<open>cenc:default_KID\<close>.
  The defect is the one of C1.
\<close>

theorem first_match_kid_not_taken:
  "expand_ns xml_namespace widevine_manifest = Inr widevine_tree
   \<and> mp4_elements widevine_tree = [kid_cp]
   \<and> get kid_cp (clark ''urn:mpeg:cenc:2013'' ''default_KID'') = Some ''9eb4050d-e44b-4802-932e-27d75083e266''
   \<and> scan_kid widevine_tree [] =
       (None, [Findall cp_tag (Some (''schemeIdUri'', mp4protection)), Get kid_key])"
proof -
  have g: "get kid_cp (clark ''urn:mpeg:cenc:2013'' ''default_KID'') = Some ''9eb4050d-e44b-4802-932e-27d75083e266''"
    by (simp add: kid_cp_def get_def clark_def)
  have k: "scan_kid widevine_tree [] =
       (None, [Findall cp_tag (Some (''schemeIdUri'', mp4protection)), Get kid_key])"
    by (simp add: scan_kid_eq mp4_widevine_tree get_kid_cp truthy_def Let_def)
  from widevine_expand mp4_widevine_tree g k show ?thesis by simp
qed

text \<open>
  C3. A manifest with a key id and a \<open>pssh\<close> under a non-Widevine
  \<open>ContentProtection\<close> only is to yield that \<open>pssh\<close> through the fallback scan. On the
  PlayReady manifest above the fallback scan is never reached: the first loop reads
  the key \<open>cenc:default_KID\<close>, the parsed attribute is keyed
  \<open>{urn:mpeg:cenc:2013}default_KID\<close>, \<open>kid\<close> stays \<open>None\<close> and the \<open>ValueError\<close>
  for a missing field is raised. The defect is the one of C1.
\<close>

theorem playready_manifest_rejected:
  "expand_ns xml_namespace playready_manifest = Inr playready_tree
   \<and> widevine_elements playready_tree = []
   \<and> cp_elements playready_tree = [kid_cp, playready_cp]
   \<and> map pssh_of (cp_elements playready_tree) = [None, Some ''AAAANHBzc2g='']
   \<and> get kid_cp (clark ''urn:mpeg:cenc:2013'' ''default_KID'') = Some ''9eb4050d-e44b-4802-932e-27d75083e266''
   \<and> extraction url playready_tree [] =
       (Inl (ValueError (missing_msg @ url)),
        [Findall cp_tag (Some (''schemeIdUri'', mp4protection)), Get kid_key])"
proof -
  have w: "widevine_elements playready_tree = []"
    by (simp add: widevine_elements_def playready_tree_def descendants_mpd)
       (simp add: kid_cp_def playready_cp_def const_defs get_def)
  have c: "cp_elements playready_tree = [kid_cp, playready_cp]"
    by (simp add: cp_elements_def playready_tree_def descendants_mpd)
       (simp add: kid_cp_def playready_cp_def const_defs)
  have p: "map pssh_of [kid_cp, playready_cp] = [None, Some ''AAAANHBzc2g='']"
    by (simp add: pssh_of_def find_child_def kid_cp_def playready_cp_def const_defs)
  have g: "get kid_cp (clark ''urn:mpeg:cenc:2013'' ''default_KID'') = Some ''9eb4050d-e44b-4802-932e-27d75083e266''"
    by (simp add: kid_cp_def get_def clark_def)
  have e: "extraction url playready_tree [] =
       (Inl (ValueError (missing_msg @ url)),
        [Findall cp_tag (Some (''schemeIdUri'', mp4protection)), Get kid_key])"
    using extraction_no_kid [of playready_tree url "[]"]
    by (simp add: mp4_playready_tree get_kid_cp truthy_def)
  from playready_expand w c p g e show ?thesis by simp
qed

text \<open>
  C4. When no generic-protection element yields a non-empty key id, the extraction
  raises the \<open>ValueError\<close> for a missing field, and the calls made on the tree are the
  \<open>findall\<close> for the generic-protection elements and one \<open>get\<close> for each of them:
  no \<open>pssh\<close> is searched for, neither by the Widevine scan nor by the fallback scan.
\<close>

theorem no_kid_no_pssh_search:
  "first_nonempty (map (\<lambda>cp. get cp kid_key) (mp4_elements root)) = None \<Longrightarrow>
   extraction manifest_url root log =
     (Inl (ValueError (missing_msg @ manifest_url)),
      log @ Findall cp_tag (Some (''schemeIdUri'', mp4protection))
            # replicate (length (mp4_elements root)) (Get kid_key))"
  by (rule extraction_no_kid)

text \<open>An instance: a manifest without any key id, whose Widevine element has a \<open>pssh\<close>.\<close>

theorem no_kid_no_pssh_search_witness:
  "first_nonempty (map (\<lambda>cp. get cp kid_key) (mp4_elements no_kid_tree)) = None
   \<and> pssh_of widevine_cp = Some ''AAAANHBzc2g=''
   \<and> extraction ''https://stream.brasilparalelo.com.br/c/s/mpd/stream.mpd'' no_kid_tree [] =
       (Inl (ValueError (missing_msg @ ''https://stream.brasilparalelo.com.br/c/s/mpd/stream.mpd'')),
        [Findall cp_tag (Some (''schemeIdUri'', mp4protection)), Get kid_key])"
proof -
  have h: "first_nonempty (map (\<lambda>cp. get cp kid_key) (mp4_elements no_kid_tree)) = None"
    by (simp add: mp4_no_kid_tree get_bare_cp truthy_def)
  have p: "pssh_of widevine_cp = Some ''AAAANHBzc2g=''"
    by (simp add: pssh_of_def find_child_def widevine_cp_def const_defs)
  show ?thesis
    using h p no_kid_no_pssh_search [OF h, of "''https://stream.brasilparalelo.com.br/c/s/mpd/stream.mpd''" "[]"]
    by (simp add: mp4_no_kid_tree)
qed

text \<open>
  C5. When the document has no \<open>pssh\<close> element with non-empty text, the extraction
  raises a \<open>ValueError\<close> whose message ends with the manifest URL. This holds
  whether or not a key id was found, so in particular when one was.
\<close>

theorem no_pssh_fails_with_url:
  "pssh_texts root = [] \<Longrightarrow>
   fst (extraction manifest_url root log) = Inl (ValueError (missing_msg @ manifest_url))"
  by (rule extraction_no_pssh)

text \<open>An instance: a manifest with a key id and no \<open>pssh\<close> element.\<close>

theorem no_pssh_fails_with_url_witness:
  "pssh_texts no_pssh_tree = []
   \<and> fst (extraction ''https://stream.brasilparalelo.com.br/c/s/mpd/stream.mpd'' no_pssh_tree []) =
       Inl (ValueError (missing_msg @ ''https://stream.brasilparalelo.com.br/c/s/mpd/stream.mpd''))"
proof -
  have h: "pssh_texts no_pssh_tree = []"
    by (simp add: pssh_texts_def no_pssh_tree_def mpd_def kid_cp_def const_defs)
  show ?thesis
    using h no_pssh_fails_with_url [OF h, of "''https://stream.brasilparalelo.com.br/c/s/mpd/stream.mpd''" "[]"]
    by simp
qed

text \<open>
  C6. When \<open>ET.fromstring\<close> raises \<open>ParseError\<close>, the extraction raises the
  \<open>ValueError\<close> that reports the parse failure, with the parser's message in it; the
  log is unchanged, so no element was searched for; and that error is not the one
  raised for a missing key id or \<open>pssh\<close>, whatever the URL.
\<close>

theorem malformed_xml_parse_error:
  "fromstring manifest_xml = Inl e \<Longrightarrow>
   get_tracks_extraction fromstring manifest_url manifest_xml log =
     (Inl (ValueError (parse_failure_msg @ e)), log)
   \<and> ValueError (parse_failure_msg @ e) \<noteq> ValueError (missing_msg @ u)"
  by (simp add: get_tracks_extraction_def parse_failure_msg_def missing_msg_def)

text \<open>An instance: a parser that rejects the text \<open><MPD>\<close>.\<close>

theorem malformed_xml_parse_error_witness:
  "get_tracks_extraction (\<lambda>x. Inl ''no element found: line 1, column 5'') ''u'' ''<MPD>'' [] =
     (Inl (ValueError (parse_failure_msg @ ''no element found: line 1, column 5'')), [])
   \<and> ValueError (parse_failure_msg @ ''no element found: line 1, column 5'') \<noteq> ValueError (missing_msg @ ''u'')"
  using malformed_xml_parse_error [of "\<lambda>x. Inl ''no element found: line 1, column 5''" "''<MPD>''" "''no element found: line 1, column 5''" "''u''" "[]" "''u''"]
  by simp

text \<open>
  C8. The stream id is \<open>d7137531-aab7-43f7-a15b-a64b0453b4ca\<close> for every title id
  other than \<open>62b0d862d12d4c0029f05602\<close>, for which it is
  \<open>79f73236-4c3a-4998-8f5d-c14d33a91c9f\<close>, and the manifest URL is
  \<open>https://stream.brasilparalelo.com.br/<content_id>/<stream_id>/mpd/stream.mpd\<close>.
\<close>

theorem manifest_url_shape:
  "(title_id \<noteq> ''62b0d862d12d4c0029f05602'' \<longrightarrow>
       stream_id_of title_id = ''d7137531-aab7-43f7-a15b-a64b0453b4ca'')
   \<and> stream_id_of ''62b0d862d12d4c0029f05602'' = ''79f73236-4c3a-4998-8f5d-c14d33a91c9f''
   \<and> manifest_url_of content_id title_id =
       ''https://stream.brasilparalelo.com.br/'' @ content_id @ ''/'' @ stream_id_of title_id
         @ ''/mpd/stream.mpd''"
  by (simp add: stream_id_of_def manifest_url_of_def)

text \<open>An instance: a title id that differs from the special one in its last digit.\<close>

theorem manifest_url_shape_witness:
  "''62b0d862d12d4c0029f05603'' \<noteq> ''62b0d862d12d4c0029f05602''
   \<and> stream_id_of ''62b0d862d12d4c0029f05603'' = ''d7137531-aab7-43f7-a15b-a64b0453b4ca''
   \<and> manifest_url_of ''abc'' ''62b0d862d12d4c0029f05603'' =
       ''https://stream.brasilparalelo.com.br/abc/d7137531-aab7-43f7-a15b-a64b0453b4ca/mpd/stream.mpd''"
  using manifest_url_shape [of "''62b0d862d12d4c0029f05603''" "''abc''"]
  by simp

text \<open>
  C9. \<open>get_chapters\<close> returns the empty list for every \<open>title_id\<close>: it never raises
  and never returns a non-empty list.
\<close>

theorem get_chapters_empty: "get_chapters self title_id = Inr []"
  by (simp add: get_chapters_def)

text \<open>
  C10. When \<open>get_titles\<close> returns, the response was a decoded body, and the result
  is a \<open>Movies\<close> with exactly one \<open>Movie\<close> if and only if the movie flag is set or the
  playlist type name of the response is \<open>movie\<close>; it is a \<open>Series\<close> if and only if
  neither holds.
\<close>

theorem get_titles_movies_iff:
  assumes "fst (get_titles self title_id outcome) = Inr r"
  shows "\<exists>dat. outcome = Body dat
           \<and> ((\<exists>m. r = Movies [m]) \<longleftrightarrow> (self_is_movie self \<or> playlist_type_name dat = JStr ''movie''))
           \<and> ((\<exists>i t s. r = Series i t s) \<longleftrightarrow> \<not> (self_is_movie self \<or> playlist_type_name dat = JStr ''movie''))"
proof -
  from get_titles_media [OF assms] obtain dat tid where
    o: "outcome = Body dat"
    and t: "fst (titles_of_media self tid dat (field ''media'' (field ''data'' dat))) = Inr r"
    by blast
  from titles_of_media_result [OF t] o show ?thesis
    by (auto simp: playlist_type_name_def split: if_splits)
qed

text \<open>An instance of each: a series response and a movie response, the flag not set.\<close>

theorem get_titles_movies_iff_witness:
  "fst (get_titles (cli_service False) None (Body series_response)) =
     Inr (Series ''62b0d862d12d4c0029f05602'' (JStr ''Episodio 1'') [[(''name'', JStr ''Entre Lobos'')]])
   \<and> \<not> self_is_movie (cli_service False)
   \<and> playlist_type_name series_response = JStr ''series''
   \<and> fst (get_titles (cli_service False) None (Body movie_response)) =
     Inr (Movies [Movie ''62b0d862d12d4c0029f05602'' ''BRASIL_PARALELO'' (JStr ''Entre Lobos'') None
                    [(''duration'', JInt 5400)]])
   \<and> playlist_type_name movie_response = JStr ''movie''"
proof -
  have a: "playlist_type_name series_response = JStr ''series''"
    by (simp add: playlist_type_name_def series_response_def field_def)
  have b: "playlist_type_name movie_response = JStr ''movie''"
    by (simp add: playlist_type_name_def movie_response_def field_def)
  have c: "\<not> self_is_movie (cli_service False)" by (simp add: cli_service_def)
  from get_titles_movies_iff [OF series_run] get_titles_movies_iff [OF movie_run]
  show ?thesis using a b c series_run movie_run by simp
qed

end
